theory Spec2Isabelle
  imports Main "HOL-Library.Word"
begin

section \<open>The adapter packaging command of \<^verbatim>\<open>scripts/cli/pack.py\<close>\<close>

text \<open>
  The theory embeds \<^verbatim>\<open>AdapterPackCommand\<close>: the scan for weights files, the packing of
  one adapter folder (\<^verbatim>\<open>pack_adapter\<close>) and the batch loop
  (\<^verbatim>\<open>pack_adapters_interactive\<close>). Python values that come out of JSON and YAML files are
  a datatype, dictionaries are association lists in insertion order, the file system is an
  explicit store, every exception is a value, and the functions of other libraries
  (json, ruamel.yaml, zipfile, hashlib, glob, PyInquirer) are parameters collected in a record.
\<close>

subsection \<open>Values and dictionaries\<close>

text \<open>
  What \<^verbatim>\<open>json.load\<close> and \<^verbatim>\<open>yaml.load\<close> return. A float is kept as mantissa and binary
  exponent: the program only carries floats around and tests them for zero.
\<close>

datatype jvalue =
    JNull
  | JBool bool
  | JInt int
  | JFloat int int
  | JStr string
  | JList "jvalue list"
  | JDict "(string \<times> jvalue) list"

type_synonym dict = "(string \<times> jvalue) list"

text \<open>Python's truth value of an object (\<^verbatim>\<open>if x:\<close>, \<^verbatim>\<open>not x\<close>, \<^verbatim>\<open>x or y\<close>).\<close>

fun truthy :: "jvalue \<Rightarrow> bool" where
  "truthy JNull = False"
| "truthy (JBool b) = b"
| "truthy (JInt i) = (i \<noteq> 0)"
| "truthy (JFloat m e) = (m \<noteq> 0)"
| "truthy (JStr s) = (s \<noteq> [])"
| "truthy (JList xs) = (xs \<noteq> [])"
| "truthy (JDict d) = (d \<noteq> [])"

text \<open>\<^verbatim>\<open>d.get(k, None)\<close> and \<^verbatim>\<open>k in d\<close>.\<close>

definition dict_get :: "dict \<Rightarrow> string \<Rightarrow> jvalue option" where
  "dict_get d k = map_of d k"

definition dict_has :: "dict \<Rightarrow> string \<Rightarrow> bool" where
  "dict_has d k = (dict_get d k \<noteq> None)"

definition dict_keys :: "dict \<Rightarrow> string list" where
  "dict_keys d = map fst d"

text \<open>
  \<^verbatim>\<open>d[k] = v\<close>: an existing key keeps its position and takes the new value, a new key goes
  to the end.
\<close>

fun dict_set :: "string \<Rightarrow> jvalue \<Rightarrow> dict \<Rightarrow> dict" where
  "dict_set k v [] = [(k, v)]"
| "dict_set k v ((k', v') # d) =
     (if k' = k then (k, v) # d else (k', v') # dict_set k v d)"

text \<open>The loop \<^verbatim>\<open>for k, v in src.items(): dst[k] = v\<close>, which the source writes five times.\<close>

fun update_items :: "dict \<Rightarrow> dict \<Rightarrow> dict" where
  "update_items [] dst = dst"
| "update_items ((k, v) # src) dst = update_items src (dict_set k v dst)"

subsection \<open>Errors\<close>

text \<open>
  The exceptions the modelled code can raise, all of them subclasses of Python's
  \<^verbatim>\<open>Exception\<close>. \<open>FormatError\<close> stands for whatever the part of \<^verbatim>\<open>str.format\<close> that is not
  modelled raises, \<open>DownloadError\<close> for a failed download. \<^verbatim>\<open>SystemExit\<close> (from
  \<^verbatim>\<open>exit(1)\<close>) is not a subclass of \<^verbatim>\<open>Exception\<close> and is kept apart.
\<close>

datatype error =
    FileNotFoundError string
  | IsADirectoryError string
  | NotADirectoryError string
  | JSONDecodeError
  | YAMLError
  | KeyError string
  | IndexError
  | ValueError
  | TypeError
  | AttributeError
  | FormatError
  | DownloadError

text \<open>\<^verbatim>\<open>d[k]\<close> on a dictionary.\<close>

definition dict_item :: "dict \<Rightarrow> string \<Rightarrow> error + jvalue" where
  "dict_item d k = (case dict_get d k of None \<Rightarrow> Inl (KeyError k) | Some v \<Rightarrow> Inr v)"

text \<open>
  \<^verbatim>\<open>x[k]\<close> with a string key on any value: a dictionary looks the key up, every other
  value raises \<^verbatim>\<open>TypeError\<close> (strings and lists want integer indices, the rest is not
  subscriptable).
\<close>

definition subscript :: "jvalue \<Rightarrow> string \<Rightarrow> error + jvalue" where
  "subscript x k = (case x of JDict d \<Rightarrow> dict_item d k | _ \<Rightarrow> Inl TypeError)"

subsection \<open>Manifest synthesis: the overlay of the artifact's data on the template\<close>

text \<open>
  Lines 252-254 of \<^verbatim>\<open>pack_adapter\<close>:
  \<^verbatim>\<open>for key in adapter_data:
      if key in template and key != "config":
          template[key] = adapter_data[key]\<close>
  The first argument is the list of keys still to visit. Every visited key is a key of
  \<^verbatim>\<open>adapter_data\<close>, so the lookup \<^verbatim>\<open>adapter_data[key]\<close> finds a value; the \<open>None\<close> branch
  is there for totality only.
\<close>

fun overlay_keys :: "string list \<Rightarrow> dict \<Rightarrow> dict \<Rightarrow> dict" where
  "overlay_keys [] adapter_data template = template"
| "overlay_keys (key # keys) adapter_data template =
     overlay_keys keys adapter_data
       (if dict_has template key \<and> key \<noteq> ''config''
        then (case dict_get adapter_data key of
                Some v \<Rightarrow> dict_set key v template
              | None \<Rightarrow> template)
        else template)"

definition overlay_adapter_data :: "dict \<Rightarrow> dict \<Rightarrow> dict" where
  "overlay_adapter_data adapter_data template =
     overlay_keys (dict_keys adapter_data) adapter_data template"

subsection \<open>Loading the artifact's own configuration\<close>

text \<open>
  Lines 205-210 once the file is parsed: \<^verbatim>\<open>config.items()\<close> needs a dictionary
  (\<^verbatim>\<open>AttributeError\<close> on any other JSON value), and every item is stored in
  \<^verbatim>\<open>adapter_data\<close>.
\<close>

definition merge_config :: "jvalue \<Rightarrow> dict \<Rightarrow> error + dict" where
  "merge_config config adapter_data =
     (case config of
        JDict items \<Rightarrow> Inr (update_items items adapter_data)
      | _ \<Rightarrow> Inl AttributeError)"

subsection \<open>Paths\<close>

type_synonym path = string
type_synonym bytes = string

text \<open>
  \<^verbatim>\<open>os.path.join(a, b)\<close>, \<^verbatim>\<open>os.path.basename\<close> and \<^verbatim>\<open>os.path.dirname\<close> of a POSIX
  system.
\<close>

definition join :: "path \<Rightarrow> path \<Rightarrow> path" where
  "join a b =
     (if b \<noteq> [] \<and> hd b = CHR ''/'' then b
      else if a = [] \<or> last a = CHR ''/'' then a @ b
      else a @ ''/'' @ b)"

definition basename :: "path \<Rightarrow> string" where
  "basename p = rev (takeWhile (\<lambda>c. c \<noteq> CHR ''/'') (rev p))"

definition dirname :: "path \<Rightarrow> path" where
  "dirname p =
     (let head = rev (dropWhile (\<lambda>c. c \<noteq> CHR ''/'') (rev p))
      in if head \<noteq> [] \<and> \<not> list_all (\<lambda>c. c = CHR ''/'') head
         then rev (dropWhile (\<lambda>c. c = CHR ''/'') (rev head))
         else head)"

subsection \<open>The file system, the user and the terminal\<close>

text \<open>
  The file system is a store from path strings to nodes. A directory holds the names of its
  entries in the order \<^verbatim>\<open>os.listdir\<close> returns them, which the operating system chooses.
  Every file and directory is named by one spelling of its path; the empty path is the key
  of the current directory.
\<close>

datatype node = File bytes | Dir "string list"

type_synonym store = "path \<Rightarrow> node option"

definition isfile :: "store \<Rightarrow> path \<Rightarrow> bool" where
  "isfile st p = (case st p of Some (File b) \<Rightarrow> True | _ \<Rightarrow> False)"

definition exists_path :: "store \<Rightarrow> path \<Rightarrow> bool" where
  "exists_path st p = (st p \<noteq> None)"

text \<open>What the command prints, one constructor per \<^verbatim>\<open>print\<close> statement.\<close>

datatype event =
    Step2Header nat
  | Downloading
  | TemplateNotFound
  | MetaIntro
  | Thanks
  | AdapterHeader nat nat path
  | NoModelNameNotice
  | Zipping path path
  | CreatedCard string
  | FailedToPack error
  | FinalizationText

text \<open>
  The state the command works on: the file system, the answers the user will give to the
  prompts still to come (one dictionary per call of PyInquirer's \<^verbatim>\<open>prompt\<close>), the lines
  printed so far and the command's \<^verbatim>\<open>_input_cache\<close>.
\<close>

record world =
  fs :: store
  pending :: "dict list"
  out :: "event list"
  input_cache :: dict

text \<open>
  The functions of other libraries, as parameters: the parsers and printers of JSON and
  YAML, the bytes of a zip archive with the given members in the given order, the two
  digests at their widths (20 and 32 bytes), \<^verbatim>\<open>glob.glob(join(root, "**", name),
  recursive=True)\<close> on a file system, Python's \<^verbatim>\<open>str\<close> on a value that is not a string, the
  part of \<^verbatim>\<open>str.format\<close> that is not modelled (see \<open>fmt_field\<close>), the download of the
  template, and the value of \<^verbatim>\<open>ADAPTER_CACHE\<close>.
\<close>

record env =
  json_load :: "bytes \<Rightarrow> jvalue option"
  json_dump :: "jvalue \<Rightarrow> bytes"
  yaml_load :: "bytes \<Rightarrow> jvalue option"
  yaml_dump :: "jvalue \<Rightarrow> bytes"
  zip_bytes :: "(string \<times> bytes) list \<Rightarrow> bytes"
  sha1 :: "bytes \<Rightarrow> 160 word"
  sha256 :: "bytes \<Rightarrow> 256 word"
  glob_recursive :: "store \<Rightarrow> path \<Rightarrow> string \<Rightarrow> path list"
  str_of :: "jvalue \<Rightarrow> string"
  format_extended :: "dict \<Rightarrow> string \<Rightarrow> string \<Rightarrow> string option"
  download_cached :: "string \<Rightarrow> (path \<times> bytes) option"
  adapter_cache :: path

text \<open>
  A statement of the program takes the world and returns a value or an exception, and the
  world it leaves behind: an exception does not undo what was written before it.
\<close>

type_synonym ('e, 'a) action = "world \<Rightarrow> ('e + 'a) \<times> world"

definition ret :: "'a \<Rightarrow> ('e, 'a) action" where
  "ret x = (\<lambda>w. (Inr x, w))"

definition raise :: "'e \<Rightarrow> ('e, 'a) action" where
  "raise e = (\<lambda>w. (Inl e, w))"

definition lift :: "'e + 'a \<Rightarrow> ('e, 'a) action" where
  "lift r = (\<lambda>w. (r, w))"

definition and_then :: "('e, 'a) action \<Rightarrow> ('a \<Rightarrow> ('e, 'b) action) \<Rightarrow> ('e, 'b) action" where
  "and_then m f =
     (\<lambda>w. case m w of (Inl e, w') \<Rightarrow> (Inl e, w') | (Inr x, w') \<Rightarrow> f x w')"

text \<open>\<^verbatim>\<open>try: m  except Exception as ex: handler(ex)\<close>.\<close>

definition try_except :: "('e, 'a) action \<Rightarrow> ('e \<Rightarrow> ('e, 'a) action) \<Rightarrow> ('e, 'a) action" where
  "try_except m handler =
     (\<lambda>w. case m w of (Inl e, w') \<Rightarrow> handler e w' | (Inr x, w') \<Rightarrow> (Inr x, w'))"

text \<open>Sequencing of computations that only read: the first exception wins.\<close>

definition then_sum :: "'e + 'a \<Rightarrow> ('a \<Rightarrow> 'e + 'b) \<Rightarrow> 'e + 'b" where
  "then_sum r f = (case r of Inl e \<Rightarrow> Inl e | Inr x \<Rightarrow> f x)"

definition print_event :: "event \<Rightarrow> ('e, unit) action" where
  "print_event e = (\<lambda>w. (Inr (), w\<lparr>out := out w @ [e]\<rparr>))"

text \<open>
  PyInquirer's \<^verbatim>\<open>prompt\<close>: the next answer of the user. When the user gives none (the
  prompt is cancelled) it returns the empty dictionary.
\<close>

definition prompt :: "('e, dict) action" where
  "prompt =
     (\<lambda>w. case pending w of
             [] \<Rightarrow> (Inr [], w)
           | answers # rest \<Rightarrow> (Inr answers, w\<lparr>pending := rest\<rparr>))"

text \<open>\<^verbatim>\<open>open(p, "r")\<close> followed by reading the whole file.\<close>

definition read_file :: "path \<Rightarrow> (error, bytes) action" where
  "read_file p =
     (\<lambda>w. (case fs w p of
              Some (File b) \<Rightarrow> Inr b
            | Some (Dir names) \<Rightarrow> Inl (IsADirectoryError p)
            | None \<Rightarrow> Inl (FileNotFoundError p), w))"

text \<open>
  \<^verbatim>\<open>open(p, "w")\<close> followed by writing \<open>b\<close>: the directory of \<open>p\<close> must exist, the file is
  created or truncated, and a new file is entered in its directory.
\<close>

definition write_file :: "path \<Rightarrow> bytes \<Rightarrow> (error, unit) action" where
  "write_file p b =
     (\<lambda>w. case fs w p of
             Some (Dir names) \<Rightarrow> (Inl (IsADirectoryError p), w)
           | _ \<Rightarrow>
             (case fs w (dirname p) of
                Some (Dir names) \<Rightarrow>
                  (Inr (),
                   w\<lparr>fs := (fs w)
                      (dirname p \<mapsto>
                         Dir (if basename p \<in> set names then names else names @ [basename p]),
                       p \<mapsto> File b)\<rparr>)
              | Some (File c) \<Rightarrow> (Inl (NotADirectoryError p), w)
              | None \<Rightarrow> (Inl (FileNotFoundError p), w)))"

text \<open>\<^verbatim>\<open>os.listdir(p)\<close>; the empty path names no directory.\<close>

definition listdir :: "path \<Rightarrow> (error, string list) action" where
  "listdir p =
     (\<lambda>w. (if p = [] then Inl (FileNotFoundError p)
            else (case fs w p of
                    Some (Dir names) \<Rightarrow> Inr names
                  | Some (File b) \<Rightarrow> Inl (NotADirectoryError p)
                  | None \<Rightarrow> Inl (FileNotFoundError p)), w))"

subsection \<open>The prompts of one adapter\<close>

text \<open>
  \<^verbatim>\<open>ask_for_adapter_type\<close> and \<^verbatim>\<open>ask_for_adapter_data\<close> (lines 141-172) build their questions
  from constants and return the user's answers.
\<close>

definition ask_for_adapter_type :: "(error, dict) action" where
  "ask_for_adapter_type = prompt"

definition ask_for_adapter_data :: "(error, dict) action" where
  "ask_for_adapter_data = prompt"

text \<open>
  \<^verbatim>\<open>ask_for_adapter_config\<close> (lines 174-185) looks \<open>config_id\<close> up in a dictionary for the
  default it shows: a list or a dictionary is not hashable and raises \<^verbatim>\<open>TypeError\<close> before
  the user is asked. The default itself does not reach the result.
\<close>

definition ask_for_adapter_config :: "jvalue \<Rightarrow> (error, dict) action" where
  "ask_for_adapter_config config_id =
     (case config_id of
        JList xs \<Rightarrow> raise TypeError
      | JDict d \<Rightarrow> raise TypeError
      | _ \<Rightarrow> prompt)"

text \<open>
  \<^verbatim>\<open>ask_for_model_name\<close> (lines 187-200) prints a notice, asks, and remembers the answer:
  \<^verbatim>\<open>answers["model_name"]\<close> raises \<^verbatim>\<open>KeyError\<close> when the answer is missing.
\<close>

definition ask_for_model_name :: "(error, dict) action" where
  "ask_for_model_name =
     and_then (print_event NoModelNameNotice) (\<lambda>_.
     and_then prompt (\<lambda>answers.
     and_then (lift (dict_item answers ''model_name'')) (\<lambda>name.
     and_then (\<lambda>w. (Inr (), w\<lparr>input_cache := dict_set ''model_name'' name (input_cache w)\<rparr>)) (\<lambda>_.
     ret answers))))"

text \<open>\<^verbatim>\<open>not adapter_data.get(k, None)\<close>.\<close>

definition missing_or_falsy :: "dict \<Rightarrow> string \<Rightarrow> bool" where
  "missing_or_falsy d k = (case dict_get d k of None \<Rightarrow> True | Some v \<Rightarrow> \<not> truthy v)"

subsection \<open>\<^verbatim>\<open>pack_adapter\<close>, lines 205-224: collecting the artifact's data\<close>

definition load_config :: "env \<Rightarrow> path \<Rightarrow> (error, jvalue) action" where
  "load_config E folder =
     and_then (read_file (join folder ''adapter_config.json'')) (\<lambda>text.
     (case json_load E text of
        None \<Rightarrow> raise JSONDecodeError
      | Some config \<Rightarrow> ret config))"

definition collect_adapter_data :: "env \<Rightarrow> path \<Rightarrow> dict \<Rightarrow> (error, dict) action" where
  "collect_adapter_data E folder adapter_data =
     and_then (load_config E folder) (\<lambda>config.
     and_then (lift (merge_config config adapter_data)) (\<lambda>d1.
     and_then (if missing_or_falsy d1 ''type''
               then and_then ask_for_adapter_type (\<lambda>answers. ret (update_items answers d1))
               else ret d1) (\<lambda>d2.
     and_then ask_for_adapter_data (\<lambda>answers.
     and_then (ret (update_items answers d2)) (\<lambda>d3.
     and_then (lift (dict_item d3 ''config_id'')) (\<lambda>config_id.
     and_then (ask_for_adapter_config config_id) (\<lambda>answers.
     and_then (ret (update_items answers d3)) (\<lambda>d4.
     if missing_or_falsy d4 ''model_name''
     then and_then ask_for_model_name (\<lambda>answers. ret (update_items answers d4))
     else ret d4))))))))"

subsection \<open>Lines 226-230: the name of the outputs\<close>

text \<open>The list \<^verbatim>\<open>[d[k1], d[k2], ...]\<close>: the subscripts are evaluated from left to right.\<close>

fun items_of :: "dict \<Rightarrow> string list \<Rightarrow> error + jvalue list" where
  "items_of d [] = Inr []"
| "items_of d (k # ks) =
     then_sum (dict_item d k) (\<lambda>v. then_sum (items_of d ks) (\<lambda>vs. Inr (v # vs)))"

text \<open>\<^verbatim>\<open>sep.join(xs)\<close>: every item must be a string.\<close>

fun str_join :: "string \<Rightarrow> jvalue list \<Rightarrow> error + string" where
  "str_join sep [] = Inr []"
| "str_join sep [JStr s] = Inr s"
| "str_join sep (JStr s # v # vs) = then_sum (str_join sep (v # vs)) (\<lambda>r. Inr (s @ sep @ r))"
| "str_join sep (_ # vs) = Inl TypeError"

text \<open>\<^verbatim>\<open>s.replace(old, new)\<close> for strings of one character.\<close>

definition replace_char :: "char \<Rightarrow> char \<Rightarrow> string \<Rightarrow> string" where
  "replace_char old new s = map (\<lambda>c. if c = old then new else c) s"

definition folder_name_of :: "dict \<Rightarrow> error + string" where
  "folder_name_of adapter_data =
     then_sum (items_of adapter_data [''model_name'', ''task'', ''subtask'', ''config_name''])
       (\<lambda>parts. then_sum (str_join ''_'' parts)
       (\<lambda>folder_name. Inr (replace_char CHR ''/'' CHR ''-'' folder_name)))"

subsection \<open>Lines 231-235: zipping the folder\<close>

text \<open>
  \<^verbatim>\<open>zipf.write(join(folder, file), arcname=file)\<close>: a regular file becomes a member with its
  content, a directory becomes a member without content whose name ends in a slash.
\<close>

definition zip_write :: "store \<Rightarrow> path \<Rightarrow> string \<Rightarrow> error + (string \<times> bytes)" where
  "zip_write st folder file =
     (case st (join folder file) of
        Some (File b) \<Rightarrow> Inr (file, b)
      | Some (Dir names) \<Rightarrow> Inr (file @ ''/'', [])
      | None \<Rightarrow> Inl (FileNotFoundError (join folder file)))"

text \<open>The loop over \<^verbatim>\<open>listdir(folder)\<close>; the last argument holds the members written so far.\<close>

fun zip_write_all ::
  "store \<Rightarrow> path \<Rightarrow> string list \<Rightarrow> (string \<times> bytes) list \<Rightarrow> error + (string \<times> bytes) list" where
  "zip_write_all st folder [] members = Inr members"
| "zip_write_all st folder (file # files) members =
     then_sum (zip_write st folder file)
       (\<lambda>member. zip_write_all st folder files (members @ [member]))"

text \<open>
  \<^verbatim>\<open>ZipFile(zip_name, "w")\<close> creates or truncates the file at once, before the folder is
  listed; \<^verbatim>\<open>close()\<close> completes it. The bytes of an archive that was opened and never closed
  are not modelled: the file is there, with the empty content it was created with.
\<close>

definition zip_folder :: "env \<Rightarrow> path \<Rightarrow> path \<Rightarrow> (error, unit) action" where
  "zip_folder E folder zip_name =
     and_then (print_event (Zipping folder zip_name)) (\<lambda>_.
     and_then (write_file zip_name []) (\<lambda>_.
     and_then (listdir folder) (\<lambda>files.
     and_then (\<lambda>w. lift (zip_write_all (fs w) folder files []) w) (\<lambda>members.
     (\<lambda>w. (Inr (), w\<lparr>fs := (fs w)(zip_name \<mapsto> File (zip_bytes E members))\<rparr>))))))"

subsection \<open>Lines 238-241: the digests\<close>

text \<open>
  \<^verbatim>\<open>hexdigest()\<close>: the digest in hexadecimal with the letters \<open>a\<close> to \<open>f\<close>, four bits per
  character, the most significant first.
\<close>

definition hex_digit :: "nat \<Rightarrow> char" where
  "hex_digit n = ''0123456789abcdef'' ! (n mod 16)"

definition hexdigest :: "'a::len word \<Rightarrow> string" where
  "hexdigest x = map (\<lambda>i. hex_digit (unat x div 16 ^ i)) (rev [0 ..< LENGTH('a) div 4])"

definition file_hashes :: "env \<Rightarrow> path \<Rightarrow> (error, string \<times> string) action" where
  "file_hashes E zip_name =
     and_then (read_file zip_name) (\<lambda>file_bytes.
     ret (hexdigest (sha1 E file_bytes), hexdigest (sha256 E file_bytes)))"

subsection \<open>Lines 243-246: the download URL\<close>

text \<open>
  \<^verbatim>\<open>format(v, "")\<close> of a value: a string is itself, any other value is printed by \<^verbatim>\<open>str\<close>.
\<close>

definition py_str :: "env \<Rightarrow> jvalue \<Rightarrow> string" where
  "py_str E v = (case v of JStr s \<Rightarrow> s | _ \<Rightarrow> str_of E v)"

text \<open>
  A replacement field \<^verbatim>\<open>{name}\<close> of \<^verbatim>\<open>str.format\<close> called with keyword arguments only: an
  empty name or a number asks for a positional argument and raises \<^verbatim>\<open>IndexError\<close>, any
  other name is looked up among the keywords and raises \<^verbatim>\<open>KeyError\<close> when it is not there.
\<close>

definition field_value :: "env \<Rightarrow> dict \<Rightarrow> string \<Rightarrow> error + string" where
  "field_value E kwargs name =
     (if list_all (\<lambda>c. c \<in> set ''0123456789'') name then Inl IndexError
      else (case dict_get kwargs name of
              None \<Rightarrow> Inl (KeyError name)
            | Some v \<Rightarrow> Inr (py_str E v)))"

text \<open>
  \<^verbatim>\<open>str.format\<close>, read from left to right as CPython does: \<open>fmt_text\<close> copies literal text
  (\<^verbatim>\<open>{{\<close> and \<^verbatim>\<open>}}\<close> stand for one brace, a single brace that opens or closes nothing
  raises \<^verbatim>\<open>ValueError\<close>), \<open>fmt_field\<close> reads the name of a replacement field up to its
  closing brace. Attribute and index access, conversions and format specifications
  (a field that contains one of \<^verbatim>\<open>. [ ! :\<close>) are not modelled: from the first such character
  on, the rest of the output is what the parameter \<open>format_extended\<close> says, and \<open>None\<close>
  stands for any exception raised there.
\<close>

fun fmt_text :: "env \<Rightarrow> dict \<Rightarrow> string \<Rightarrow> string \<Rightarrow> error + string"
  and fmt_field :: "env \<Rightarrow> dict \<Rightarrow> string \<Rightarrow> string \<Rightarrow> string \<Rightarrow> error + string" where
  "fmt_text E kwargs written [] = Inr written"
| "fmt_text E kwargs written (c # cs) =
     (if c = CHR ''{'' then
        (case cs of
           [] \<Rightarrow> Inl ValueError
         | c' # cs' \<Rightarrow>
             if c' = CHR ''{'' then fmt_text E kwargs (written @ [c]) cs'
             else fmt_field E kwargs written [] cs)
      else if c = CHR ''}'' then
        (case cs of
           [] \<Rightarrow> Inl ValueError
         | c' # cs' \<Rightarrow>
             if c' = CHR ''}'' then fmt_text E kwargs (written @ [c]) cs'
             else Inl ValueError)
      else fmt_text E kwargs (written @ [c]) cs)"
| "fmt_field E kwargs written name [] = Inl ValueError"
| "fmt_field E kwargs written name (c # cs) =
     (if c = CHR ''}'' then
        (case field_value E kwargs name of
           Inl e \<Rightarrow> Inl e
         | Inr s \<Rightarrow> fmt_text E kwargs (written @ s) cs)
      else if c = CHR ''{'' then Inl ValueError
      else if c \<in> set ''.[!:'' then
        (case format_extended E kwargs name (c # cs) of
           None \<Rightarrow> Inl FormatError
         | Some s \<Rightarrow> Inr (written @ s))
      else fmt_field E kwargs written (name @ [c]) cs)"

text \<open>
  \<^verbatim>\<open>url_template.format(file=basename(zip_name), **adapter_data)\<close> when \<open>url_template\<close> is
  truthy, \<^verbatim>\<open>"TODO"\<close> otherwise. A truthy value that is not a string has no \<^verbatim>\<open>format\<close>
  (\<^verbatim>\<open>AttributeError\<close>); a key \<^verbatim>\<open>file\<close> in \<open>adapter_data\<close> gives the call two values for one
  keyword (\<^verbatim>\<open>TypeError\<close>).
\<close>

definition download_url :: "env \<Rightarrow> jvalue \<Rightarrow> path \<Rightarrow> dict \<Rightarrow> error + string" where
  "download_url E url_template zip_name adapter_data =
     (if truthy url_template then
        (case url_template of
           JStr t \<Rightarrow>
             if dict_has adapter_data ''file'' then Inl TypeError
             else fmt_text E ((''file'', JStr (basename zip_name)) # adapter_data) [] t
         | _ \<Rightarrow> Inl AttributeError)
      else Inr ''TODO'')"

subsection \<open>Lines 247-266: the info card\<close>

definition load_template :: "env \<Rightarrow> path \<Rightarrow> (error, jvalue) action" where
  "load_template E template_file =
     and_then (read_file template_file) (\<lambda>text.
     (case yaml_load E text of
        None \<Rightarrow> raise YAMLError
      | Some template \<Rightarrow> ret template))"

text \<open>
  A template that is not a mapping raises \<^verbatim>\<open>TypeError\<close> in the overlay loop or at the
  first assignment after it. \<open>prediction_head\<close> is the value of
  \<^verbatim>\<open>exists(join(folder, "head_config.json"))\<close>.
\<close>

definition fill_template ::
  "jvalue \<Rightarrow> dict \<Rightarrow> string \<Rightarrow> dict \<Rightarrow> bool \<Rightarrow> dict \<Rightarrow> error + dict" where
  "fill_template template file_info version adapter_data prediction_head metadata =
     (case template of
        JDict t \<Rightarrow>
          (let t1 = overlay_adapter_data adapter_data t;
               t2 = dict_set ''files'' (JList [JDict file_info]) t1;
               t3 = dict_set ''default_version'' (JStr version) t2
           in then_sum (dict_item adapter_data ''config_name'') (\<lambda>using.
              then_sum (dict_item adapter_data ''config'') (\<lambda>config.
              then_sum (subscript config ''non_linearity'') (\<lambda>non_linearity.
              then_sum (subscript config ''reduction_factor'') (\<lambda>reduction_factor.
              (let t4 = dict_set ''config''
                          (JDict [(''using'', using),
                                  (''non_linearity'', non_linearity),
                                  (''reduction_factor'', reduction_factor)]) t3;
                   t5 = dict_set ''prediction_head'' (JBool prediction_head) t4
               in Inr (if metadata \<noteq> [] then update_items metadata t5 else t5)))))))
      | _ \<Rightarrow> Inl TypeError)"

subsection \<open>\<^verbatim>\<open>pack_adapter\<close>\<close>

text \<open>Lines 230-270, once the name of the outputs is known.\<close>

definition pack_named ::
  "env \<Rightarrow> path \<Rightarrow> path \<Rightarrow> path \<Rightarrow> dict \<Rightarrow> string \<Rightarrow> jvalue \<Rightarrow> dict \<Rightarrow> string
     \<Rightarrow> (error, unit) action" where
  "pack_named E folder save_root template_file metadata version url_template adapter_data
       folder_name =
     (let zip_name = join save_root (folder_name @ ''.zip'') in
      and_then (zip_folder E folder zip_name) (\<lambda>_.
      and_then (file_hashes E zip_name) (\<lambda>(sha1_hex, sha256_hex).
      and_then (lift (download_url E url_template zip_name adapter_data)) (\<lambda>download_url.
      and_then (ret [(''version'', JStr version), (''url'', JStr download_url),
                     (''sha1'', JStr sha1_hex), (''sha256'', JStr sha256_hex)]) (\<lambda>file_info.
      and_then (load_template E template_file) (\<lambda>template.
      and_then (\<lambda>w. lift (fill_template template file_info version adapter_data
                            (exists_path (fs w) (join folder ''head_config.json'')) metadata) w)
        (\<lambda>card.
      and_then (write_file (join save_root (folder_name @ ''.yaml''))
                  (yaml_dump E (JDict card))) (\<lambda>_.
      print_event (CreatedCard folder_name)))))))))"

text \<open>
  \<^verbatim>\<open>adapter_data\<close> and \<^verbatim>\<open>metadata\<close> are dictionaries, empty for \<^verbatim>\<open>None\<close>; \<open>url_template\<close> is
  \<open>JNull\<close> for \<^verbatim>\<open>None\<close>.
\<close>

definition pack_adapter ::
  "env \<Rightarrow> path \<Rightarrow> path \<Rightarrow> path \<Rightarrow> dict \<Rightarrow> dict \<Rightarrow> string \<Rightarrow> jvalue \<Rightarrow> (error, unit) action" where
  "pack_adapter E folder save_root template_file adapter_data metadata version url_template =
     and_then (collect_adapter_data E folder adapter_data) (\<lambda>data.
     and_then (lift (folder_name_of data)) (\<lambda>folder_name.
     pack_named E folder save_root template_file metadata version url_template data
       folder_name))"

subsection \<open>\<^verbatim>\<open>pack_adapters_interactive\<close>\<close>

text \<open>
  The loop of lines 305-313. Every exception of \<open>pack_adapter\<close> is a value of \<open>error\<close>, a
  subclass of \<^verbatim>\<open>Exception\<close>, so \<^verbatim>\<open>except Exception\<close> handles it: the handler prints the
  failure. \<open>i\<close> counts the folders already visited, \<open>n\<close> is \<^verbatim>\<open>len(folders)\<close>. The loop
  passes no \<^verbatim>\<open>adapter_data\<close>.
\<close>

fun pack_loop ::
  "env \<Rightarrow> path \<Rightarrow> path \<Rightarrow> dict \<Rightarrow> string \<Rightarrow> jvalue \<Rightarrow> nat \<Rightarrow> nat \<Rightarrow> path list
     \<Rightarrow> (error, unit) action" where
  "pack_loop E save_root template_file metadata version url_template i n [] = ret ()"
| "pack_loop E save_root template_file metadata version url_template i n (folder # folders) =
     and_then (print_event (AdapterHeader (i + 1) n folder)) (\<lambda>_.
     and_then (try_except
                 (pack_adapter E folder save_root template_file [] metadata version url_template)
                 (\<lambda>ex. print_event (FailedToPack ex))) (\<lambda>_.
     pack_loop E save_root template_file metadata version url_template (i + 1) n folders))"

text \<open>
  \<^verbatim>\<open>ask_for_metadata\<close> (lines 91-139): the answers of the last session are read for the
  defaults (\<^verbatim>\<open>metadata_config.get\<close> needs a dictionary), the user is asked, and the answers
  are saved.
\<close>

definition ask_for_metadata :: "env \<Rightarrow> (error, dict) action" where
  "ask_for_metadata E =
     (let metadata_file = join (adapter_cache E) ''pack_metadata.json'' in
      and_then (\<lambda>w.
        (if isfile (fs w) metadata_file
         then and_then (read_file metadata_file) (\<lambda>text.
                (case json_load E text of
                   None \<Rightarrow> raise JSONDecodeError
                 | Some (JDict metadata_config) \<Rightarrow> ret ()
                 | Some _ \<Rightarrow> raise AttributeError))
         else ret ()) w) (\<lambda>_.
      and_then prompt (\<lambda>answers.
      and_then (write_file metadata_file (json_dump E (JDict answers))) (\<lambda>_.
      ret answers))))"

text \<open>\<^verbatim>\<open>metadata.pop(k)\<close>: the value and the dictionary without the key.\<close>

definition dict_pop :: "dict \<Rightarrow> string \<Rightarrow> error + (jvalue \<times> dict)" where
  "dict_pop d k =
     (case dict_get d k of
        None \<Rightarrow> Inl (KeyError k)
      | Some v \<Rightarrow> Inr (v, filter (\<lambda>kv. fst kv \<noteq> k) d))"

text \<open>
  \<^verbatim>\<open>os.makedirs(p)\<close>: the directories on the way to \<open>p\<close> that do not exist yet are created,
  the outermost first.
\<close>

fun dir_prefixes :: "string \<Rightarrow> string \<Rightarrow> path list" where
  "dir_prefixes seen [] = (if seen = [] \<or> last seen = CHR ''/'' then [] else [seen])"
| "dir_prefixes seen (c # cs) =
     (if c = CHR ''/'' \<and> seen \<noteq> [] \<and> last seen \<noteq> CHR ''/''
      then seen # dir_prefixes (seen @ [c]) cs
      else dir_prefixes (seen @ [c]) cs)"

definition mkdir :: "path \<Rightarrow> (error, unit) action" where
  "mkdir p =
     (\<lambda>w. case fs w (dirname p) of
             Some (Dir names) \<Rightarrow>
               (Inr (), w\<lparr>fs := (fs w)(dirname p \<mapsto> Dir (names @ [basename p]), p \<mapsto> Dir [])\<rparr>)
           | Some (File b) \<Rightarrow> (Inl (NotADirectoryError p), w)
           | None \<Rightarrow> (Inl (FileNotFoundError p), w))"

fun mkdir_all :: "path list \<Rightarrow> (error, unit) action" where
  "mkdir_all [] = ret ()"
| "mkdir_all (p # ps) =
     and_then (\<lambda>w. (if exists_path (fs w) p then ret () else mkdir p) w) (\<lambda>_. mkdir_all ps)"

definition makedirs :: "path \<Rightarrow> (error, unit) action" where
  "makedirs p = mkdir_all (dir_prefixes [] p)"

text \<open>
  What ends the batch before its end: an exception nobody handles, or \<^verbatim>\<open>exit(1)\<close>.
\<close>

datatype abort = Uncaught error | SystemExit nat

definition uncaught :: "(error, 'a) action \<Rightarrow> (abort, 'a) action" where
  "uncaught m =
     (\<lambda>w. case m w of (Inl e, w') \<Rightarrow> (Inl (Uncaught e), w') | (Inr x, w') \<Rightarrow> (Inr x, w'))"

definition ADAPTER_TEMPLATE_YAML :: string where
  "ADAPTER_TEMPLATE_YAML =
     ''https://raw.githubusercontent.com/Adapter-Hub/Hub/master/TEMPLATES/adapter.template.yaml''"

text \<open>
  Lines 287-294. \<open>template\<close> is \<^verbatim>\<open>self.template\<close>, empty when the option was not given. The
  downloaded template is stored in the cache and its path returned.
\<close>

definition find_template :: "env \<Rightarrow> string \<Rightarrow> (abort, path) action" where
  "find_template E template =
     (if template = [] then
        and_then (print_event Downloading) (\<lambda>_.
        (case download_cached E ADAPTER_TEMPLATE_YAML of
           None \<Rightarrow> raise (Uncaught DownloadError)
         | Some (cached, content) \<Rightarrow>
             (\<lambda>w. (Inr cached, w\<lparr>fs := (fs w)(cached \<mapsto> File content)\<rparr>))))
      else (\<lambda>w.
        (if \<not> isfile (fs w) template
         then and_then (print_event TemplateNotFound) (\<lambda>_. raise (SystemExit 1))
         else ret template) w))"

definition pack_adapters_interactive ::
  "env \<Rightarrow> string \<Rightarrow> path list \<Rightarrow> path \<Rightarrow> string \<Rightarrow> (abort, unit) action" where
  "pack_adapters_interactive E template folders save_root version =
     and_then (print_event (Step2Header (length folders))) (\<lambda>_.
     and_then (find_template E template) (\<lambda>template_file.
     and_then (\<lambda>w. (if \<not> exists_path (fs w) save_root
                     then uncaught (makedirs save_root) else ret ()) w) (\<lambda>_.
     and_then (print_event MetaIntro) (\<lambda>_.
     and_then (uncaught (ask_for_metadata E)) (\<lambda>answers.
     and_then (lift (case dict_pop answers ''adapter_url_template'' of
                       Inl e \<Rightarrow> Inl (Uncaught e) | Inr r \<Rightarrow> Inr r)) (\<lambda>(url_template, metadata).
     and_then (print_event Thanks) (\<lambda>_.
     and_then (uncaught (pack_loop E save_root template_file metadata version url_template
                           0 (length folders) folders)) (\<lambda>_.
     print_event FinalizationText))))))))"

subsection \<open>\<^verbatim>\<open>find_models_and_adapters\<close>\<close>

text \<open>The names of the weights files, constants of the transformers library.\<close>

definition WEIGHTS_NAME :: string where
  "WEIGHTS_NAME = ''pytorch_model.bin''"

definition ADAPTER_WEIGHTS_NAME :: string where
  "ADAPTER_WEIGHTS_NAME = ''pytorch_adapter.bin''"

text \<open>
  The inner loop of lines 83-84 and 87-88: \<^verbatim>\<open>for weights_file in ...:
  dirs.append(dirname(weights_file))\<close>.
\<close>

fun append_dirnames :: "path list \<Rightarrow> path list \<Rightarrow> path list" where
  "append_dirnames [] dirs = dirs"
| "append_dirnames (weights_file # rest) dirs = append_dirnames rest (dirs @ [dirname weights_file])"

text \<open>The outer loop over \<^verbatim>\<open>self.input_paths\<close>, for one name of a weights file.\<close>

fun scan_input_paths :: "env \<Rightarrow> store \<Rightarrow> string \<Rightarrow> path list \<Rightarrow> path list \<Rightarrow> path list" where
  "scan_input_paths E st name [] dirs = dirs"
| "scan_input_paths E st name (input_path # rest) dirs =
     scan_input_paths E st name rest
       (append_dirnames (glob_recursive E st input_path name) dirs)"

definition find_models_and_adapters ::
  "env \<Rightarrow> store \<Rightarrow> path list \<Rightarrow> bool \<Rightarrow> path list \<times> path list" where
  "find_models_and_adapters E st input_paths extract_from_models =
     (let models_list =
            (if extract_from_models then scan_input_paths E st WEIGHTS_NAME input_paths []
             else []);
          adapters_list = scan_input_paths E st ADAPTER_WEIGHTS_NAME input_paths []
      in (models_list, adapters_list))"

subsection \<open>A small file system, for the examples\<close>

text \<open>
  A glob for a file system whose paths are listed: the files called \<open>name\<close> below \<open>root\<close>,
  at any depth.
\<close>

definition glob_over :: "path list \<Rightarrow> store \<Rightarrow> path \<Rightarrow> string \<Rightarrow> path list" where
  "glob_over paths st root name =
     filter (\<lambda>p. isfile st p \<and> basename p = name
                  \<and> take (length root + 1) p = root @ ''/'') paths"

definition example_config_text :: bytes where
  \<open>example_config_text =
     ''{"type": "text_task", "model_name": "google/bert", "config_id": "9f", "config": {"non_linearity": "relu", "reduction_factor": 16}}''\<close>

definition example_config :: jvalue where
  "example_config =
     JDict [(''type'', JStr ''text_task''), (''model_name'', JStr ''google/bert''),
            (''config_id'', JStr ''9f''),
            (''config'', JDict [(''non_linearity'', JStr ''relu''),
                               (''reduction_factor'', JInt 16)])]"

definition example_template_text :: bytes where
  "example_template_text =
     ''{type: null, task: null, subtask: null, model_name: null, config: null, author: null}''"

definition example_template :: jvalue where
  "example_template =
     JDict [(''type'', JNull), (''task'', JNull), (''subtask'', JNull),
            (''model_name'', JNull), (''config'', JNull), (''author'', JNull)]"

definition example_paths :: "path list" where
  "example_paths =
     [''ad/pytorch_adapter.bin'', ''ad/adapter_config.json'', ''template.yaml'',
      ''models/a/pytorch_model.bin'', ''models/a/pytorch_adapter.bin'']"

definition example_store :: store where
  "example_store = map_of
     [('''', Dir [''ad'', ''empty'', ''out'', ''models'', ''template.yaml'']),
      (''ad'', Dir [''pytorch_adapter.bin'', ''adapter_config.json'']),
      (''ad/pytorch_adapter.bin'', File ''weights''),
      (''ad/adapter_config.json'', File example_config_text),
      (''empty'', Dir []),
      (''out'', Dir []),
      (''models'', Dir [''a'']),
      (''models/a'', Dir [''pytorch_model.bin'', ''pytorch_adapter.bin'']),
      (''models/a/pytorch_model.bin'', File ''model''),
      (''models/a/pytorch_adapter.bin'', File ''weights''),
      (''template.yaml'', File example_template_text)]"

text \<open>
  Stand-ins for the library functions: parsers that know the two files above, printers
  and digests that are as simple as their types allow, an archive format that lists the
  members in their order.
\<close>

definition example_env :: env where
  "example_env =
     \<lparr>json_load = (\<lambda>b. if b = example_config_text then Some example_config else None),
      json_dump = (\<lambda>v. ''json''),
      yaml_load = (\<lambda>b. if b = example_template_text then Some example_template else None),
      yaml_dump = (\<lambda>v. ''yaml''),
      zip_bytes = (\<lambda>members. concat (map (\<lambda>(name, content). name @ '':'' @ content @ '';'') members)),
      sha1 = (\<lambda>b. of_nat (length b)),
      sha256 = (\<lambda>b. of_nat (length b)),
      glob_recursive = glob_over example_paths,
      str_of = (\<lambda>v. ''?''),
      format_extended = (\<lambda>kwargs name rest. None),
      download_cached = (\<lambda>url. None),
      adapter_cache = ''cache''\<rparr>"

text \<open>
  The user answers the two prompts that \<open>pack_adapter\<close> has for the folder \<open>ad\<close>: task and
  subtask, then the name of the configuration.
\<close>

definition example_world :: world where
  "example_world =
     \<lparr>fs = example_store,
      pending = [[(''task'', JStr ''sst''), (''subtask'', JStr ''glue'')],
                 [(''config_name'', JStr ''pfeiffer'')]],
      out = [],
      input_cache = []\<rparr>"

definition example_metadata :: dict where
  "example_metadata = [(''author'', JStr ''A''), (''email'', JStr ''a@x.com'')]"

section \<open>Properties\<close>

subsection \<open>Dictionaries\<close>

lemma dict_get_set: "dict_get (dict_set k v d) k' = (if k' = k then Some v else dict_get d k')"
  by (induction d) (auto simp: dict_get_def)

lemma dict_keys_set_present:
  "dict_has d k \<Longrightarrow> dict_keys (dict_set k v d) = dict_keys d"
proof (induction d)
  case Nil
  then show ?case by (simp add: dict_has_def dict_get_def)
next
  case (Cons kv d)
  then show ?case
    by (cases kv) (auto simp: dict_has_def dict_get_def dict_keys_def)
qed

lemma dict_has_keys: "dict_has d k \<longleftrightarrow> k \<in> set (dict_keys d)"
  by (simp add: dict_has_def dict_get_def dict_keys_def map_of_eq_None_iff)

lemma dict_get_update_items:
  "dict_get (update_items src dst) k =
     (case map_of (rev src) k of Some v \<Rightarrow> Some v | None \<Rightarrow> dict_get dst k)"
proof (induction src arbitrary: dst)
  case Nil
  then show ?case by simp
next
  case (Cons kv src)
  obtain k' v' where kv: "kv = (k', v')" by (cases kv)
  show ?case
    by (simp add: kv Cons.IH dict_get_set map_add_def split: option.split)
qed

subsection \<open>The overlay of the artifact's data on the template\<close>

lemma overlay_keys_keys:
  "dict_keys (overlay_keys ks a t) = dict_keys t"
  by (induction ks a t rule: overlay_keys.induct)
     (auto simp: dict_keys_set_present split: option.splits)

lemma overlay_keys_get:
  "dict_get (overlay_keys ks a t) k =
     (if k \<in> set ks \<and> dict_has a k \<and> dict_has t k \<and> k \<noteq> ''config''
      then dict_get a k else dict_get t k)"
proof (induction ks a t rule: overlay_keys.induct)
  case (1 a t)
  then show ?case by simp
next
  case (2 key keys a t)
  have keep: "dict_has (dict_set key v t) k = dict_has t k" if "dict_has t key" for v
    using that by (auto simp: dict_has_def dict_get_set)
  show ?case
    using 2 by (auto simp: dict_get_set keep dict_has_def split: option.splits)
qed

text \<open>
  C1. After the overlay loop of lines 252-254, a key that \<open>adapter_data\<close> and the template
  share, other than \<^verbatim>\<open>config\<close>, holds the value of \<open>adapter_data\<close>; every other key of the
  template keeps the template's value; and the keys of the result are the keys of the
  template, in the template's order: a key of \<open>adapter_data\<close> that the template does not have
  is not added.
\<close>

theorem overlay_adapter_data_spec:
  "dict_get (overlay_adapter_data adapter_data template) k =
     (if dict_has adapter_data k \<and> dict_has template k \<and> k \<noteq> ''config''
      then dict_get adapter_data k else dict_get template k)
   \<and> dict_keys (overlay_adapter_data adapter_data template) = dict_keys template"
  by (auto simp: overlay_adapter_data_def overlay_keys_get overlay_keys_keys dict_has_keys)

theorem overlay_adapter_data_spec_witness:
  "dict_get (overlay_adapter_data
      [(''model_name'', JStr ''bert''), (''hidden'', JInt 7), (''config'', JDict [])]
      [(''model_name'', JNull), (''config'', JNull), (''author'', JNull)]) ''model_name''
    = Some (JStr ''bert'')
   \<and> dict_keys (overlay_adapter_data
      [(''model_name'', JStr ''bert''), (''hidden'', JInt 7), (''config'', JDict [])]
      [(''model_name'', JNull), (''config'', JNull), (''author'', JNull)])
    = [''model_name'', ''config'', ''author'']"
  using overlay_adapter_data_spec
    [of "[(''model_name'', JStr ''bert''), (''hidden'', JInt 7), (''config'', JDict [])]"
        "[(''model_name'', JNull), (''config'', JNull), (''author'', JNull)]" "''model_name''"]
  by (simp add: dict_has_def dict_get_def dict_keys_def)

subsection \<open>The artifact's configuration file against the caller's fields\<close>

lemma map_of_rev_distinct:
  "distinct (map fst xs) \<Longrightarrow> map_of (rev xs) = map_of xs"
  by (subst map_of_inject_set) (simp_all add: rev_map [symmetric])

text \<open>
  C10. The items of the parsed \<^verbatim>\<open>adapter_config.json\<close> (a dictionary, so its keys are
  distinct) are stored in \<open>adapter_data\<close> first: after lines 205-210 every key of the file
  holds the file's value, whatever the caller had supplied under that key, and the caller's
  other fields are kept.
\<close>

theorem merge_config_overrides:
  assumes "distinct (map fst items)"
  shows "\<exists>d. merge_config (JDict items) adapter_data = Inr d \<and>
     (\<forall>k. dict_get d k =
        (case map_of items k of Some v \<Rightarrow> Some v | None \<Rightarrow> dict_get adapter_data k))"
proof -
  have "map_of (rev items) = map_of items"
    using assms by (rule map_of_rev_distinct)
  then show ?thesis
    by (simp add: merge_config_def dict_get_update_items)
qed

theorem merge_config_overrides_witness:
  "\<exists>d. merge_config (JDict [(''model_name'', JStr ''bert''), (''config_id'', JStr ''9f'')])
          [(''model_name'', JStr ''mine''), (''task'', JStr ''sst'')] = Inr d
     \<and> dict_get d ''model_name'' = Some (JStr ''bert'')
     \<and> dict_get d ''task'' = Some (JStr ''sst'')"
proof -
  have distinct_keys:
    "distinct (map fst [(''model_name'', JStr ''bert''), (''config_id'', JStr ''9f'')])"
    by simp
  from merge_config_overrides [OF distinct_keys,
      of "[(''model_name'', JStr ''mine''), (''task'', JStr ''sst'')]"]
  obtain d where d:
    "merge_config (JDict [(''model_name'', JStr ''bert''), (''config_id'', JStr ''9f'')])
       [(''model_name'', JStr ''mine''), (''task'', JStr ''sst'')] = Inr d"
    "\<And>k. dict_get d k =
       (case map_of [(''model_name'', JStr ''bert''), (''config_id'', JStr ''9f'')] k of
          Some v \<Rightarrow> Some v
        | None \<Rightarrow> dict_get [(''model_name'', JStr ''mine''), (''task'', JStr ''sst'')] k)"
    by blast
  have "dict_get d ''model_name'' = Some (JStr ''bert'')"
    by (simp add: d(2))
  moreover have "dict_get d ''task'' = Some (JStr ''sst'')"
    using d(2) [of "''task''"] by (simp add: dict_get_def)
  ultimately show ?thesis
    using d(1) by blast
qed

end
